theory Spec2Isabelle
  imports Complex_Main "HOL-Library.Monad_Syntax" "HOL-Library.Sublist"
begin

section \<open>Data model\<close>

text \<open>
  The form dictionary \<open>form_data\<close> of \<open>app.py\<close> maps field names to the values of the
  Streamlit widgets: numbers (\<open>st.number_input\<close>, \<open>st.slider\<close>) and strings
  (\<open>st.text_input\<close>, \<open>st.text_area\<close>, \<open>st.selectbox\<close>). Python's \<open>int\<close> and \<open>float\<close>
  are both read as exact real numbers: the source only uses true division, comparison,
  \<open>min\<close> and \<open>max\<close> on them, and an \<open>int\<close> is read as the \<open>float\<close> of the same value. The
  rounding of IEEE doubles is outside this model, with one exception: where the function
  divides by a value it has computed itself (the payback period and the burn multiple),
  a result that underflows to \<open>0.0\<close> makes the division raise, which changes the path
  taken. There \<open>fl x\<close> stands for the double that Python obtains for an operation whose
  exact result is \<open>x\<close>, infinite on overflow; \<open>fl\<close> is a parameter of the model.
\<close>

datatype pyval = Num real | Str string

type_synonym form_data = "string \<rightharpoonup> pyval"

text \<open>\<open>float('inf')\<close> is the only non-finite value the source writes.\<close>

datatype pyfloat = Finite real | PosInf

text \<open>
  The dictionary \<open>metrics\<close> always carries the same ten keys, on the normal path and in
  the \<open>except\<close> branch.
\<close>

record metrics =
  ltv_cac_ratio :: real
  payback_period :: pyfloat
  burn_multiple :: pyfloat
  efficiency_score :: real
  growth_score :: real
  market_score :: real
  team_score :: real
  traction_score :: real
  risk_score :: real
  overall_score :: real

section \<open>Reading the dictionary\<close>

text \<open>
  Every step of \<open>calculate_comprehensive_metrics\<close> runs inside \<open>try: ... except Exception\<close>.
  A step that raises is \<open>None\<close>: a string where a number is used (\<open>TypeError\<close>), a missing
  key under \<open>data[k]\<close> (\<open>KeyError\<close>), a zero divisor (\<open>ZeroDivisionError\<close>).
\<close>

definition get_num :: "form_data \<Rightarrow> string \<Rightarrow> real \<Rightarrow> real option" where
  \<comment> \<open>\<open>data.get(k, dflt)\<close>, used as a number\<close>
  "get_num data k dflt =
     (case data k of None \<Rightarrow> Some dflt | Some (Num x) \<Rightarrow> Some x | Some (Str s) \<Rightarrow> None)"

definition item_num :: "form_data \<Rightarrow> string \<Rightarrow> real option" where
  \<comment> \<open>\<open>data[k]\<close>, used as a number\<close>
  "item_num data k =
     (case data k of None \<Rightarrow> None | Some (Num x) \<Rightarrow> Some x | Some (Str s) \<Rightarrow> None)"

definition truediv :: "real \<Rightarrow> real \<Rightarrow> real option" where
  "truediv a b = (if b = 0 then None else Some (a / b))"

text \<open>
  Division in double arithmetic, for the two computed divisors: a float by a number
  (used with positive numbers only), and a number by a float.
\<close>

definition fdiv_real :: "(real \<Rightarrow> pyfloat) \<Rightarrow> pyfloat \<Rightarrow> real \<Rightarrow> pyfloat option" where
  "fdiv_real fl x r =
     (if r = 0 then None
      else Some (case x of PosInf \<Rightarrow> PosInf | Finite a \<Rightarrow> fl (a / r)))"

definition real_fdiv :: "(real \<Rightarrow> pyfloat) \<Rightarrow> real \<Rightarrow> pyfloat \<Rightarrow> pyfloat option" where
  "real_fdiv fl a y =
     (case y of
        PosInf \<Rightarrow> Some (Finite 0)
      | Finite d \<Rightarrow> if d = 0 then None else Some (fl (a / d)))"

section \<open>calculate_comprehensive_metrics\<close>

text \<open>
  In \<open>data['cac'] / (data.get('arr', 0) / 12 / max(data.get('current_customers', 1), 1))\<close>
  the divisor is the result of two divisions; each can underflow.
\<close>

definition unit_economics :: "(real \<Rightarrow> pyfloat) \<Rightarrow> form_data \<Rightarrow> (real \<times> pyfloat) option" where
  "unit_economics fl data = do {
     c \<leftarrow> get_num data ''cac'' 0;
     if c > 0 then do {
       ltv \<leftarrow> get_num data ''ltv'' 0;
       cac \<leftarrow> item_num data ''cac'';
       ratio \<leftarrow> truediv ltv cac;
       a \<leftarrow> get_num data ''arr'' 0;
       payback \<leftarrow> (if a > 0 then do {
           cac2 \<leftarrow> item_num data ''cac'';
           arr \<leftarrow> get_num data ''arr'' 0;
           customers \<leftarrow> get_num data ''current_customers'' 1;
           per_customer \<leftarrow> fdiv_real fl (fl (arr / 12)) (max customers 1);
           real_fdiv fl cac2 per_customer
         } else Some PosInf);
       Some (ratio, payback)
     } else Some (0, PosInf)
   }"

text \<open>
  In \<open>net_burn / (data['current_mrr'] * data['monthly_growth_rate'] / 100)\<close> the divisor is
  the result of a multiplication and a division; each can underflow.
\<close>

definition calc_burn_multiple :: "(real \<Rightarrow> pyfloat) \<Rightarrow> form_data \<Rightarrow> pyfloat option" where
  "calc_burn_multiple fl data = do {
     b \<leftarrow> get_num data ''burn_rate'' 0;
     both \<leftarrow> (if b > 0 then do { m \<leftarrow> get_num data ''current_mrr'' 0; Some (m > 0) }
              else Some False);
     if both then do {
       burn \<leftarrow> item_num data ''burn_rate'';
       mrr \<leftarrow> item_num data ''current_mrr'';
       let net_burn = burn - mrr;
       grows \<leftarrow> (if net_burn > 0
                 then do { g \<leftarrow> get_num data ''monthly_growth_rate'' 0; Some (g > 0) }
                 else Some False);
       if grows then do {
         mrr2 \<leftarrow> item_num data ''current_mrr'';
         growth \<leftarrow> item_num data ''monthly_growth_rate'';
         divisor \<leftarrow> fdiv_real fl (fl (mrr2 * growth)) 100;
         real_fdiv fl net_burn divisor
       } else Some (Finite 0)
     } else Some PosInf
   }"

definition calc_efficiency :: "form_data \<Rightarrow> real \<Rightarrow> real option" where
  "calc_efficiency data ratio = do {
     let ltv_cac_score = (if ratio > 0 then min 100 ((ratio / 3) * 50) else 0);
     gm \<leftarrow> get_num data ''gross_margin'' 0;
     let margin_score = gm * 0.5;
     Some (min 100 (ltv_cac_score + margin_score))
   }"

definition calc_growth :: "form_data \<Rightarrow> real option" where
  "calc_growth data = do {
     growth_rate \<leftarrow> get_num data ''monthly_growth_rate'' 0;
     Some (if growth_rate \<ge> 20 then 100
           else if growth_rate \<ge> 10 then 80
           else if growth_rate \<ge> 5 then 60
           else growth_rate * 10)
   }"

definition calc_market :: "form_data \<Rightarrow> real option" where
  "calc_market data = do {
     tam \<leftarrow> get_num data ''tam'' 0;
     let market_size_score =
       (if tam \<ge> 10000 then 100 else if tam \<ge> 1000 then 80 else if tam \<ge> 100 then 60
        else (40::real));
     has_som \<leftarrow> (if tam > 0 then do { s \<leftarrow> get_num data ''som'' 0; Some (s > 0) }
                 else Some False);
     capture_score \<leftarrow> (if has_som then do {
         som \<leftarrow> item_num data ''som'';
         r \<leftarrow> truediv som tam;
         let capture_ratio = r * 100;
         Some (min 100 (capture_ratio * 20))
       } else Some 50);
     Some ((market_size_score + capture_score) / 2)
   }"

definition calc_team :: "form_data \<Rightarrow> real option" where
  "calc_team data = do {
     size5 \<leftarrow> get_num data ''team_size'' 0;
     let team_size_score = min 100 (size5 * 5);
     technical \<leftarrow> get_num data ''technical_team'' 0;
     size1 \<leftarrow> get_num data ''team_size'' 1;
     r \<leftarrow> truediv technical (max size1 1);
     let technical_ratio = r * 100;
     advisors \<leftarrow> get_num data ''advisors_count'' 0;
     let advisor_score = min 100 (advisors * 20);
     Some ((team_size_score + technical_ratio + advisor_score) / 3)
   }"

definition calc_traction :: "form_data \<Rightarrow> real option" where
  "calc_traction data = do {
     customers \<leftarrow> get_num data ''current_customers'' 0;
     let customer_score = min 100 (customers / 10);
     arr \<leftarrow> get_num data ''arr'' 0;
     let revenue_score = min 100 ((arr / 100000) * 100);
     raised \<leftarrow> get_num data ''funding_raised'' 0;
     let funding_score = min 100 ((raised / 1000000) * 50);
     Some ((customer_score + revenue_score + funding_score) / 3)
   }"

definition calc_risk :: "form_data \<Rightarrow> real option" where
  "calc_risk data = do {
     runway \<leftarrow> get_num data ''runway_months'' 0;
     let runway_score = min 100 ((runway / 18) * 100);
     churn \<leftarrow> get_num data ''churn_rate'' 0;
     let churn_score = max 0 (100 - (churn * 10));
     Some ((runway_score + churn_score) / 2)
   }"

definition weights :: "(string \<times> real) list" where
  "weights =
     [(''efficiency'', 0.20), (''growth'', 0.20), (''market'', 0.15),
      (''team'', 0.15), (''traction'', 0.20), (''risk'', 0.10)]"

definition weight :: "string \<Rightarrow> real option" where
  \<comment> \<open>\<open>weights[k]\<close>\<close>
  "weight k = map_of weights k"

definition calc_overall :: "real \<Rightarrow> real \<Rightarrow> real \<Rightarrow> real \<Rightarrow> real \<Rightarrow> real \<Rightarrow> real option" where
  "calc_overall eff gro mar tea tra ris = do {
     w1 \<leftarrow> weight ''efficiency'';
     w2 \<leftarrow> weight ''growth'';
     w3 \<leftarrow> weight ''market'';
     w4 \<leftarrow> weight ''team'';
     w5 \<leftarrow> weight ''traction'';
     w6 \<leftarrow> weight ''risk'';
     Some (eff * w1 + gro * w2 + mar * w3 + tea * w4 + tra * w5 + ris * w6)
   }"

text \<open>The body of the \<open>try\<close> block, section by section in the order of the source.\<close>

definition metrics_try :: "(real \<Rightarrow> pyfloat) \<Rightarrow> form_data \<Rightarrow> metrics option" where
  "metrics_try fl data = do {
     (ratio, payback) \<leftarrow> unit_economics fl data;
     bm \<leftarrow> calc_burn_multiple fl data;
     eff \<leftarrow> calc_efficiency data ratio;
     gro \<leftarrow> calc_growth data;
     mar \<leftarrow> calc_market data;
     tea \<leftarrow> calc_team data;
     tra \<leftarrow> calc_traction data;
     ris \<leftarrow> calc_risk data;
     ov \<leftarrow> calc_overall eff gro mar tea tra ris;
     Some \<lparr> ltv_cac_ratio = ratio, payback_period = payback, burn_multiple = bm,
            efficiency_score = eff, growth_score = gro, market_score = mar,
            team_score = tea, traction_score = tra, risk_score = ris,
            overall_score = ov \<rparr>
   }"

text \<open>The dictionary of the \<open>except\<close> branch.\<close>

definition metrics_except :: metrics where
  "metrics_except =
     \<lparr> ltv_cac_ratio = 0, payback_period = Finite 0, burn_multiple = Finite 0,
       efficiency_score = 0, growth_score = 0, market_score = 0,
       team_score = 0, traction_score = 0, risk_score = 0,
       overall_score = 0 \<rparr>"

definition calculate_comprehensive_metrics :: "(real \<Rightarrow> pyfloat) \<Rightarrow> form_data \<Rightarrow> metrics" where
  "calculate_comprehensive_metrics fl data =
     (case metrics_try fl data of Some m \<Rightarrow> m | None \<Rightarrow> metrics_except)"

section \<open>Form submission: required fields and scoring\<close>

definition required_fields :: "string list" where
  "required_fields =
     [''company_name'', ''problem_solution'', ''market_info'', ''business_model_desc'',
      ''uniqueness'', ''team_experience'', ''team_structure'', ''funding_seeking'',
      ''use_of_funds'', ''cac'', ''ltv'', ''burn_rate'', ''runway_months'',
      ''competitors'', ''competitive_advantage'', ''customer_acquisition'', ''other_risks'']"

definition truthy :: "pyval option \<Rightarrow> bool" where
  \<comment> \<open>Python truth value of \<open>form_data.get(field)\<close>; a missing key gives \<open>None\<close>\<close>
  "truthy v = (case v of None \<Rightarrow> False | Some (Num x) \<Rightarrow> x \<noteq> 0 | Some (Str s) \<Rightarrow> s \<noteq> [])"

definition missing_fields :: "form_data \<Rightarrow> string list" where
  "missing_fields form = filter (\<lambda>field. \<not> truthy (form field)) required_fields"

text \<open>
  The submission handler either reports the missing fields (\<open>st.error\<close>) or goes on to
  the metrics; nothing is scored in the first branch.
\<close>

datatype outcome = Missing_Fields "string list" | Scored metrics

definition submit :: "(real \<Rightarrow> pyfloat) \<Rightarrow> form_data \<Rightarrow> outcome" where
  "submit fl form =
     (if missing_fields form \<noteq> [] then Missing_Fields (missing_fields form)
      else Scored (calculate_comprehensive_metrics fl form))"

section \<open>Recommendations\<close>

record recommendation =
  area :: string
  issue :: string
  action :: string

text \<open>
  The \<open>issue\<close> texts are f-strings. Python's number formatting is taken as two
  parameters: \<open>fmt1\<close> for \<open>{x:.1f}\<close> and \<open>fmt\<close> for \<open>{x}\<close>. The block is not inside a
  \<open>try\<close>: \<open>form_data[k]\<close> on a missing key, or a comparison of a string with a number,
  ends the run (\<open>None\<close>).
\<close>

definition recommendations ::
  "(real \<Rightarrow> string) \<Rightarrow> (real \<Rightarrow> string) \<Rightarrow> metrics \<Rightarrow> form_data \<Rightarrow> recommendation list option"
where
  "recommendations fmt1 fmt m form = do {
     let recs = [];
     let recs = (if ltv_cac_ratio m < 3 then recs @
       [\<lparr> area = ''Unit Economics'',
          issue = ''LTV/CAC ratio is '' @ fmt1 (ltv_cac_ratio m) @ '' (below 3.0 benchmark)'',
          action = ''Focus on improving customer retention and reducing acquisition costs'' \<rparr>]
       else recs);
     runway \<leftarrow> item_num form ''runway_months'';
     let recs = (if runway < 18 then recs @
       [\<lparr> area = ''Financial Health'',
          issue = ''Runway is only '' @ fmt runway @ '' months'',
          action = ''Extend runway to 18-24 months through fundraising or burn reduction'' \<rparr>]
       else recs);
     margin \<leftarrow> item_num form ''gross_margin'';
     let recs = (if margin < 70 then recs @
       [\<lparr> area = ''Business Model'',
          issue = ''Gross margin is '' @ fmt margin @ ''% (below SaaS benchmark)'',
          action = ''Optimize pricing strategy and reduce COGS to improve margins'' \<rparr>]
       else recs);
     growth \<leftarrow> item_num form ''monthly_growth_rate'';
     let recs = (if growth < 10 then recs @
       [\<lparr> area = ''Growth'',
          issue = ''Monthly growth rate is '' @ fmt growth @ ''%'',
          action = ''Accelerate growth through improved sales/marketing efficiency'' \<rparr>]
       else recs);
     churn \<leftarrow> item_num form ''churn_rate'';
     let recs = (if churn > 5 then recs @
       [\<lparr> area = ''Customer Retention'',
          issue = ''Monthly churn rate is '' @ fmt churn @ ''%'',
          action = ''Implement customer success initiatives to reduce churn below 5%'' \<rparr>]
       else recs);
     Some recs
   }"

section \<open>Python string operations used on the AI response\<close>

text \<open>
  Strings are lists of characters, a character being a code point below 256.
  \<open>str.strip()\<close> removes the characters for which \<open>str.isspace\<close> holds; below 256 these
  are 9 to 13, 28 to 32, 133 and 160. Code points from 256 on are outside this model.
\<close>

definition is_space :: "char \<Rightarrow> bool" where
  "is_space c =
     (let n = (of_char c :: nat)
      in (9 \<le> n \<and> n \<le> 13) \<or> (28 \<le> n \<and> n \<le> 32) \<or> n = 133 \<or> n = 160)"

definition py_strip :: "string \<Rightarrow> string" where
  "py_strip s = rev (dropWhile is_space (rev (dropWhile is_space s)))"

fun contains :: "string \<Rightarrow> string \<Rightarrow> bool" where
  \<comment> \<open>\<open>sub in s\<close>\<close>
  "contains sub [] = (sub = [])"
| "contains sub (c # cs) = (prefix sub (c # cs) \<or> contains sub cs)"

text \<open>
  \<open>s.split(sep)\<close> for a non-empty separator: the pieces between the non-overlapping
  occurrences of \<open>sep\<close>, found from the left. (Python raises on an empty separator; the
  source only splits at the two fence literals.)
\<close>

function py_split :: "string \<Rightarrow> string \<Rightarrow> string list" where
  "py_split sep [] = [[]]"
| "py_split sep (c # cs) =
     (if prefix sep (c # cs) then [] # py_split sep (drop (length sep - 1) cs)
      else (case py_split sep cs of [] \<Rightarrow> [[c]] | p # ps \<Rightarrow> (c # p) # ps))"
  by pat_completeness auto
termination
  by (relation "measure (\<lambda>(sep, s). length s)") auto

definition py_index :: "'a list \<Rightarrow> nat \<Rightarrow> 'a option" where
  \<comment> \<open>\<open>xs[i]\<close> for \<open>i \<ge> 0\<close>; \<open>None\<close> is \<open>IndexError\<close>\<close>
  "py_index xs i = (if i < length xs then Some (xs ! i) else None)"

definition py_find :: "char \<Rightarrow> string \<Rightarrow> int" where
  "py_find c s = (if c \<in> set s then int (length (takeWhile (\<lambda>x. x \<noteq> c) s)) else - 1)"

definition py_rfind :: "char \<Rightarrow> string \<Rightarrow> int" where
  "py_rfind c s =
     (if c \<in> set s then int (length s) - 1 - int (length (takeWhile (\<lambda>x. x \<noteq> c) (rev s)))
      else - 1)"

definition slice_from :: "string \<Rightarrow> int \<Rightarrow> string" where
  \<comment> \<open>\<open>s[i:]\<close>\<close>
  "slice_from s i = (if i \<ge> 0 then drop (nat i) s else drop (nat (int (length s) + i)) s)"

definition slice_to :: "string \<Rightarrow> int \<Rightarrow> string" where
  \<comment> \<open>\<open>s[:j]\<close>\<close>
  "slice_to s j = (if j \<ge> 0 then take (nat j) s else take (nat (int (length s) + j)) s)"

definition lower_char :: "char \<Rightarrow> char" where
  "lower_char c = (let n = (of_char c :: nat) in if 65 \<le> n \<and> n \<le> 90 then char_of (n + 32) else c)"

definition py_lower :: "string \<Rightarrow> string" where
  "py_lower s = map lower_char s"

section \<open>generate_ai_insights\<close>

text \<open>
  What \<open>json.loads\<close> returns, and the dictionaries the function builds itself. A
  dictionary is an association list in insertion order.
\<close>

datatype json =
  JNull | JBool bool | JNum real | JStr string | JArr "json list" | JObj "(string \<times> json) list"

text \<open>
  \<open>json.loads\<close> returns the parsed value, raises \<open>json.JSONDecodeError\<close> on a text that is
  not JSON, or raises another exception (\<open>RecursionError\<close> on a deeply nested text), of
  which only the message \<open>str(e)\<close> is used.
\<close>

datatype loads_result = Parsed json | JSONDecodeError | Raised string

definition fence :: string where
  "fence = [CHR 0x60, CHR 0x60, CHR 0x60]"

definition fence_json :: string where
  "fence_json = fence @ ''json''"

text \<open>The two \<open>split\<close> branches that remove a markdown code block.\<close>

definition strip_code_block :: "string \<Rightarrow> string option" where
  "strip_code_block t =
     (if contains fence_json t then do {
        a \<leftarrow> py_index (py_split fence_json t) 1;
        b \<leftarrow> py_index (py_split fence a) 0;
        Some (py_strip b)
      } else if contains fence t then do {
        a \<leftarrow> py_index (py_split fence t) 1;
        b \<leftarrow> py_index (py_split fence a) 0;
        Some (py_strip b)
      } else Some t)"

definition drop_before_brace :: "string \<Rightarrow> string" where
  "drop_before_brace t =
     (if \<not> prefix ''{'' t
      then (let start = py_find CHR ''{'' t in if start \<noteq> - 1 then slice_from t start else t)
      else t)"

definition drop_after_brace :: "string \<Rightarrow> string" where
  "drop_after_brace t =
     (if suffix ''}'' t
      then (let end = py_rfind CHR ''}'' t in slice_to t (end + 1))
      else t)"

definition clean_response :: "string \<Rightarrow> string option" where
  "clean_response content = do {
     t \<leftarrow> strip_code_block (py_strip content);
     Some (drop_after_brace (drop_before_brace t))
   }"

definition error_record :: "string \<Rightarrow> json" where
  "error_record msg = JObj [(''error'', JStr msg)]"

definition fallback_insights :: json where
  "fallback_insights = JObj
     [(''error'', JStr ''JSON parsing failed''),
      (''investment_thesis'', JStr ''Unable to parse AI response. Please try again.''),
      (''investment_recommendation'', JStr ''HOLD''),
      (''valuation_assessment'', JStr ''Analysis incomplete''),
      (''key_strengths'', JArr [JStr ''Data provided'', JStr ''Comprehensive information'',
         JStr ''Clear metrics'', JStr ''Established team'']),
      (''key_concerns'', JArr [JStr ''Technical analysis error'', JStr ''Please retry'',
         JStr ''Consider manual review'', JStr ''System processing issue'']),
      (''due_diligence_priorities'', JArr [JStr ''Retry analysis'', JStr ''Manual review'',
         JStr ''Verify data'']),
      (''growth_potential'', JStr ''Requires reanalysis''),
      (''team_assessment'', JStr ''Team information provided''),
      (''market_timing'', JStr ''Market analysis pending''),
      (''competitive_position'', JStr ''Competitive data available''),
      (''financial_health'', JStr ''Financial metrics provided''),
      (''risk_assessment'', JStr ''MEDIUM - Analysis incomplete''),
      (''recommended_terms'', JStr ''Rerun analysis for recommendations''),
      (''post_investment_support'', JArr [JStr ''Technical review'', JStr ''Strategic planning'',
         JStr ''Market analysis'']),
      (''comparable_exits'', JStr ''Data pending''),
      (''investment_score'', JNum 50)]"

text \<open>The outer \<open>except Exception as e\<close>, on the message \<open>str(e)\<close>.\<close>

definition classify_exception :: "string \<Rightarrow> json" where
  "classify_exception error_msg =
     (if contains ''api_key'' (py_lower error_msg)
      then error_record ''Invalid API key. Please check your OpenAI API key and try again.''
      else if contains ''rate'' (py_lower error_msg)
      then error_record ''API rate limit reached. Please wait a moment and try again.''
      else error_record (''AI analysis failed: '' @ error_msg))"

text \<open>
  The collaborator is the OpenAI client: \<open>chat api_key data\<close> stands for constructing
  \<open>OpenAI(api_key=api_key)\<close>, building the prompt from \<open>data\<close> and calling
  \<open>client.chat.completions.create\<close>; it yields the message content (\<open>Inr\<close>) or the
  message of the exception it raised (\<open>Inl\<close>). \<open>loads\<close> is \<open>json.loads\<close>. The inner
  \<open>except json.JSONDecodeError\<close> returns the fallback record; every other exception
  reaches the outer \<open>except Exception\<close>. The second component of the result lists the
  keys with which the collaborator was invoked, in order.
\<close>

definition generate_ai_insights ::
  "(string \<Rightarrow> loads_result) \<Rightarrow> (string \<Rightarrow> form_data \<Rightarrow> string + string) \<Rightarrow> form_data
     \<Rightarrow> string \<Rightarrow> json \<times> string list"
where
  "generate_ai_insights loads chat data api_key =
     (if api_key = []
      then (error_record ''Please provide an OpenAI API key for Pro mode analysis.'', [])
      else if \<not> prefix ''sk-'' api_key
      then (error_record
              (''Invalid API key format. OpenAI API keys should start with ''
               @ [CHR 0x27] @ ''sk-'' @ [CHR 0x27]), [])
      else
        (case chat api_key data of
           Inl error_msg \<Rightarrow> classify_exception error_msg
         | Inr content \<Rightarrow>
             (case clean_response content of
                None \<Rightarrow> classify_exception ''list index out of range''
              | Some response_text \<Rightarrow>
                  (case loads response_text of
                     Parsed parsed \<Rightarrow> parsed
                   | JSONDecodeError \<Rightarrow> fallback_insights
                   | Raised error_msg \<Rightarrow> classify_exception error_msg)),
         [api_key]))"

section \<open>Callers of generate_ai_insights\<close>

definition error_in :: "json \<Rightarrow> bool option" where
  \<comment> \<open>\<open>"error" in ai_insights\<close>; \<open>None\<close> is the \<open>TypeError\<close> of a value without membership\<close>
  "error_in v =
     (case v of
        JObj kvs \<Rightarrow> Some (''error'' \<in> set (map fst kvs))
      | JArr xs \<Rightarrow> Some (JStr ''error'' \<in> set xs)
      | JStr s \<Rightarrow> Some (contains ''error'' s)
      | _ \<Rightarrow> None)"

text \<open>
  The submission handler keeps the insights only when the key \<open>error\<close> is absent and
  the code that displays them completes; otherwise, and on any exception inside its
  \<open>try\<close>, \<open>ai_insights\<close> is reset to the empty dictionary. \<open>display_raises\<close> tells for
  which insights the display code (the \<open>else\<close> branch, Streamlit calls on the fields)
  raises.
\<close>

definition handle_insights :: "(json \<Rightarrow> bool) \<Rightarrow> json \<Rightarrow> json" where
  "handle_insights display_raises ai_insights =
     (case error_in ai_insights of
        Some True \<Rightarrow> JObj []
      | Some False \<Rightarrow> (if display_raises ai_insights then JObj [] else ai_insights)
      | None \<Rightarrow> JObj [])"

definition json_truthy :: "json \<Rightarrow> bool" where
  "json_truthy v =
     (case v of JNull \<Rightarrow> False | JBool b \<Rightarrow> b | JNum x \<Rightarrow> x \<noteq> 0 | JStr s \<Rightarrow> s \<noteq> []
      | JArr xs \<Rightarrow> xs \<noteq> [] | JObj kvs \<Rightarrow> kvs \<noteq> [])"

definition pdf_shows_insights :: "json \<Rightarrow> bool option" where
  \<comment> \<open>the guard \<open>if ai_insights and "error" not in ai_insights\<close> of \<open>generate_pdf_report\<close>\<close>
  "pdf_shows_insights ai_insights =
     (if json_truthy ai_insights then map_option Not (error_in ai_insights) else Some False)"

definition json_get :: "json \<Rightarrow> string \<Rightarrow> json option" where
  \<comment> \<open>\<open>d.get(k)\<close> on a dictionary\<close>
  "json_get v k = (case v of JObj kvs \<Rightarrow> map_of kvs k | _ \<Rightarrow> None)"

section \<open>Proposals\<close>

text \<open>
  A proposal is a form dictionary whose numeric fields hold numbers (or are absent, in
  which case \<open>data.get\<close> supplies the default) of magnitude below \<open>2 ^ 511\<close>, so that no
  conversion, quotient or product of Python integers leaves the range of doubles.
  \<open>val data k dflt\<close> is the number read under key \<open>k\<close>. The form widgets have
  \<open>min_value=0\<close>, which \<open>nonneg\<close> states.
\<close>

definition metric_keys :: "string list" where
  "metric_keys =
     [''cac'', ''ltv'', ''arr'', ''current_customers'', ''burn_rate'', ''current_mrr'',
      ''monthly_growth_rate'', ''gross_margin'', ''tam'', ''som'', ''team_size'',
      ''technical_team'', ''advisors_count'', ''funding_raised'', ''runway_months'',
      ''churn_rate'']"

definition is_number :: "pyval option \<Rightarrow> bool" where
  "is_number v =
     (case v of None \<Rightarrow> True | Some (Num x) \<Rightarrow> \<bar>x\<bar> < 2 ^ 511 | Some (Str s) \<Rightarrow> False)"

definition numeric :: "form_data \<Rightarrow> bool" where
  "numeric data = list_all (\<lambda>k. is_number (data k)) metric_keys"

definition val :: "form_data \<Rightarrow> string \<Rightarrow> real \<Rightarrow> real" where
  "val data k dflt = (case data k of Some (Num x) \<Rightarrow> x | _ \<Rightarrow> dflt)"

definition nonneg :: "form_data \<Rightarrow> bool" where
  "nonneg data = list_all (\<lambda>k. 0 \<le> val data k 0) metric_keys"

text \<open>
  The two divisors as Python computes them, and the proposals on which one of them is
  reached and is \<open>0.0\<close>, so that \<open>ZeroDivisionError\<close> is raised.
\<close>

definition payback_divisor :: "(real \<Rightarrow> pyfloat) \<Rightarrow> form_data \<Rightarrow> pyfloat" where
  "payback_divisor fl data =
     (case fl (val data ''arr'' 0 / 12) of
        PosInf \<Rightarrow> PosInf
      | Finite a \<Rightarrow> fl (a / max (val data ''current_customers'' 1) 1))"




section \<open>Metrics of a proposal\<close>

lemma get_num_numeric:
  "numeric data \<Longrightarrow> k \<in> set metric_keys \<Longrightarrow> get_num data k d = Some (val data k d)"
  by (auto simp: numeric_def list_all_iff is_number_def get_num_def val_def
           split: option.splits pyval.splits)

lemma item_num_numeric:
  "numeric data \<Longrightarrow> k \<in> set metric_keys \<Longrightarrow> val data k 0 > 0 \<Longrightarrow> item_num data k = Some (val data k 0)"
  by (auto simp: numeric_def list_all_iff is_number_def item_num_def val_def
           split: option.splits pyval.splits)

lemma truediv_nz: "b \<noteq> 0 \<Longrightarrow> truediv a b = Some (a / b)"
  by (simp add: truediv_def)

lemma keys_mem:
  "''cac'' \<in> set metric_keys" "''ltv'' \<in> set metric_keys" "''arr'' \<in> set metric_keys"
  "''current_customers'' \<in> set metric_keys" "''burn_rate'' \<in> set metric_keys"
  "''current_mrr'' \<in> set metric_keys" "''monthly_growth_rate'' \<in> set metric_keys"
  "''gross_margin'' \<in> set metric_keys" "''tam'' \<in> set metric_keys" "''som'' \<in> set metric_keys"
  "''team_size'' \<in> set metric_keys" "''technical_team'' \<in> set metric_keys"
  "''advisors_count'' \<in> set metric_keys" "''funding_raised'' \<in> set metric_keys"
  "''runway_months'' \<in> set metric_keys" "''churn_rate'' \<in> set metric_keys"
  by (simp_all add: metric_keys_def)

lemma nonneg_val: "nonneg data \<Longrightarrow> k \<in> set metric_keys \<Longrightarrow> 0 \<le> val data k 0"
  by (simp add: nonneg_def list_all_iff)

lemma val_default_mono: "0 \<le> val data k 0 \<Longrightarrow> 0 \<le> val data k 1"
  by (auto simp: val_def split: option.splits pyval.splits)

lemma max_one_nz: "max (x::real) 1 \<noteq> 0"
  by (simp add: max_def)

lemma unit_economics_numeric:
  assumes "numeric data"
  shows "unit_economics fl data =
     (if val data ''cac'' 0 > 0
      then (if val data ''arr'' 0 > 0
            then map_option (Pair (val data ''ltv'' 0 / val data ''cac'' 0))
                   (real_fdiv fl (val data ''cac'' 0) (payback_divisor fl data))
            else Some (val data ''ltv'' 0 / val data ''cac'' 0, PosInf))
      else Some (0, PosInf))"
  using assms
  by (simp add: unit_economics_def get_num_numeric item_num_numeric keys_mem truediv_def
      payback_divisor_def fdiv_real_def max_one_nz map_option_case split: option.splits)



lemma team_numeric:
  assumes "numeric data"
  shows "calc_team data = Some
     ((min 100 (val data ''team_size'' 0 * 5)
       + val data ''technical_team'' 0 / max (val data ''team_size'' 1) 1 * 100
       + min 100 (val data ''advisors_count'' 0 * 20)) / 3)"
  using assms
  by (simp add: calc_team_def get_num_numeric keys_mem truediv_nz)

lemma efficiency_numeric:
  "numeric data \<Longrightarrow> calc_efficiency data ratio = Some
     (min 100 ((if ratio > 0 then min 100 ((ratio / 3) * 50) else 0) + val data ''gross_margin'' 0 * 0.5))"
  by (simp add: calc_efficiency_def get_num_numeric keys_mem)

lemma growth_numeric:
  "numeric data \<Longrightarrow> calc_growth data = Some
     (if val data ''monthly_growth_rate'' 0 \<ge> 20 then 100
      else if val data ''monthly_growth_rate'' 0 \<ge> 10 then 80
      else if val data ''monthly_growth_rate'' 0 \<ge> 5 then 60
      else val data ''monthly_growth_rate'' 0 * 10)"
  by (simp add: calc_growth_def get_num_numeric keys_mem)

lemma market_numeric:
  "numeric data \<Longrightarrow> calc_market data = Some
     (((if val data ''tam'' 0 \<ge> 10000 then 100 else if val data ''tam'' 0 \<ge> 1000 then 80
        else if val data ''tam'' 0 \<ge> 100 then 60 else 40)
       + (if val data ''tam'' 0 > 0 \<and> val data ''som'' 0 > 0
          then min 100 (val data ''som'' 0 / val data ''tam'' 0 * 100 * 20) else 50)) / 2)"
  by (simp add: calc_market_def get_num_numeric item_num_numeric keys_mem truediv_nz Let_def)

lemma traction_numeric:
  "numeric data \<Longrightarrow> calc_traction data = Some
     ((min 100 (val data ''current_customers'' 0 / 10)
       + min 100 (val data ''arr'' 0 / 100000 * 100)
       + min 100 (val data ''funding_raised'' 0 / 1000000 * 50)) / 3)"
  by (simp add: calc_traction_def get_num_numeric keys_mem)

lemma risk_numeric:
  "numeric data \<Longrightarrow> calc_risk data = Some
     ((min 100 (val data ''runway_months'' 0 / 18 * 100)
       + max 0 (100 - val data ''churn_rate'' 0 * 10)) / 2)"
  by (simp add: calc_risk_def get_num_numeric keys_mem)

lemma overall_eq:
  "calc_overall e g m t tr r = Some (e * 0.20 + g * 0.20 + m * 0.15 + t * 0.15 + tr * 0.20 + r * 0.10)"
  by (simp add: calc_overall_def weight_def weights_def)

lemma metrics_try_fields:
  assumes "metrics_try fl data = Some m"
  shows "unit_economics fl data = Some (ltv_cac_ratio m, payback_period m)"
    and "calc_burn_multiple fl data = Some (burn_multiple m)"
    and "calc_efficiency data (ltv_cac_ratio m) = Some (efficiency_score m)"
    and "calc_growth data = Some (growth_score m)"
    and "calc_market data = Some (market_score m)"
    and "calc_team data = Some (team_score m)"
    and "calc_traction data = Some (traction_score m)"
    and "calc_risk data = Some (risk_score m)"
    and "calc_overall (efficiency_score m) (growth_score m) (market_score m) (team_score m)
           (traction_score m) (risk_score m) = Some (overall_score m)"
  using assms
  by (auto simp: metrics_try_def split: bind_splits prod.splits)






lemma normal_scores_in_range:
  assumes "numeric data" "nonneg data" "metrics_try fl data = Some m'"
  shows "0 \<le> efficiency_score m' \<and> efficiency_score m' \<le> 100"
    and "0 \<le> growth_score m' \<and> growth_score m' \<le> 100"
    and "0 \<le> market_score m' \<and> market_score m' \<le> 100"
    and "0 \<le> traction_score m' \<and> traction_score m' \<le> 100"
    and "0 \<le> risk_score m' \<and> risk_score m' \<le> 100"
    and "0 \<le> team_score m'"
    and "val data ''technical_team'' 0 \<le> max (val data ''team_size'' 1) 1 \<Longrightarrow> team_score m' \<le> 100"
proof -
  note f = metrics_try_fields[OF assms(3)]
  note nn = nonneg_val[OF assms(2)]
  have "ltv_cac_ratio m' = (if val data ''cac'' 0 > 0 then val data ''ltv'' 0 / val data ''cac'' 0 else 0)"
    using f(1) by (auto simp: unit_economics_numeric[OF assms(1)] split: if_splits)
  then have ue: "0 \<le> ltv_cac_ratio m'"
    using nn[of "''ltv''"] by (simp add: keys_mem)
  show "0 \<le> efficiency_score m' \<and> efficiency_score m' \<le> 100"
    using f(3) ue nn[of "''gross_margin''"]
    by (auto simp: efficiency_numeric[OF assms(1)] keys_mem min_def split: if_splits)
  show "0 \<le> growth_score m' \<and> growth_score m' \<le> 100"
    using f(4) nn[of "''monthly_growth_rate''"]
    by (auto simp: growth_numeric[OF assms(1)] keys_mem split: if_splits)
  show "0 \<le> market_score m' \<and> market_score m' \<le> 100"
  proof -
    define size_score :: real where "size_score =
      (if val data ''tam'' 0 \<ge> 10000 then 100 else if val data ''tam'' 0 \<ge> 1000 then 80
       else if val data ''tam'' 0 \<ge> 100 then 60 else 40)"
    define capture :: real where "capture =
      (if val data ''tam'' 0 > 0 \<and> val data ''som'' 0 > 0
       then min 100 (val data ''som'' 0 / val data ''tam'' 0 * 100 * 20) else 50)"
    have "0 \<le> size_score \<and> size_score \<le> 100" by (simp add: size_score_def)
    moreover have "0 \<le> capture \<and> capture \<le> 100" by (simp add: capture_def)
    moreover have "market_score m' = (size_score + capture) / 2"
      using f(5) by (simp add: market_numeric[OF assms(1)] size_score_def capture_def)
    ultimately show ?thesis by simp
  qed
  show "0 \<le> traction_score m' \<and> traction_score m' \<le> 100"
    using f(7) nn[of "''current_customers''"] nn[of "''arr''"] nn[of "''funding_raised''"]
    by (auto simp: traction_numeric[OF assms(1)] keys_mem min_def split: if_splits)
  show "0 \<le> risk_score m' \<and> risk_score m' \<le> 100"
    using f(8) nn[of "''runway_months''"] nn[of "''churn_rate''"]
    by (auto simp: risk_numeric[OF assms(1)] keys_mem min_def max_def split: if_splits)
  define q where "q = val data ''technical_team'' 0 / max (val data ''team_size'' 1) 1"
  define ts where "ts = min 100 (val data ''team_size'' 0 * 5)"
  define adv where "adv = min 100 (val data ''advisors_count'' 0 * 20)"
  have team: "team_score m' = (ts + q * 100 + adv) / 3"
    using f(6) by (simp add: team_numeric[OF assms(1)] q_def ts_def adv_def)
  have q0: "0 \<le> q"
    using nn[of "''technical_team''"] by (simp add: q_def keys_mem)
  have ts_b: "0 \<le> ts \<and> ts \<le> 100"
    using nn[of "''team_size''"] by (simp add: ts_def keys_mem)
  have adv_b: "0 \<le> adv \<and> adv \<le> 100"
    using nn[of "''advisors_count''"] by (simp add: adv_def keys_mem)
  show "0 \<le> team_score m'"
    using q0 ts_b adv_b by (simp add: team)
  show "team_score m' \<le> 100" if "val data ''technical_team'' 0 \<le> max (val data ''team_size'' 1) 1"
  proof -
    have "0 < max (val data ''team_size'' 1) 1" by simp
    then have "q \<le> 1"
      using that unfolding q_def by (simp only: divide_le_eq_1_pos)
    then show ?thesis
      using ts_b adv_b by (simp add: team)
  qed
qed


text \<open>
  Five of the six sub-scores are in range, and the team score is when the technical head
  count does not exceed \<open>max(team_size, 1)\<close>.
\<close>

lemma sub_scores_in_range:
  fixes fl :: "real \<Rightarrow> pyfloat"
  assumes "numeric data" "nonneg data"
  defines "m \<equiv> calculate_comprehensive_metrics fl data"
  shows "0 \<le> efficiency_score m \<and> efficiency_score m \<le> 100"
    and "0 \<le> growth_score m \<and> growth_score m \<le> 100"
    and "0 \<le> market_score m \<and> market_score m \<le> 100"
    and "0 \<le> traction_score m \<and> traction_score m \<le> 100"
    and "0 \<le> risk_score m \<and> risk_score m \<le> 100"
    and "0 \<le> team_score m"
    and "val data ''technical_team'' 0 \<le> max (val data ''team_size'' 1) 1 \<Longrightarrow> team_score m \<le> 100"
proof -
  consider "metrics_try fl data = None" "m = metrics_except"
    | m' where "metrics_try fl data = Some m'" "m = m'"
    by (cases "metrics_try fl data") (auto simp: m_def calculate_comprehensive_metrics_def)
  note split = this
  show "0 \<le> efficiency_score m \<and> efficiency_score m \<le> 100"
    using split normal_scores_in_range(1)[OF assms(1,2)] by cases (auto simp: metrics_except_def)
  show "0 \<le> growth_score m \<and> growth_score m \<le> 100"
    using split normal_scores_in_range(2)[OF assms(1,2)] by cases (auto simp: metrics_except_def)
  show "0 \<le> market_score m \<and> market_score m \<le> 100"
    using split normal_scores_in_range(3)[OF assms(1,2)] by cases (auto simp: metrics_except_def)
  show "0 \<le> traction_score m \<and> traction_score m \<le> 100"
    using split normal_scores_in_range(4)[OF assms(1,2)] by cases (auto simp: metrics_except_def)
  show "0 \<le> risk_score m \<and> risk_score m \<le> 100"
    using split normal_scores_in_range(5)[OF assms(1,2)] by cases (auto simp: metrics_except_def)
  show "0 \<le> team_score m"
    using split normal_scores_in_range(6)[OF assms(1,2)] by cases (auto simp: metrics_except_def)
  show "team_score m \<le> 100" if "val data ''technical_team'' 0 \<le> max (val data ''team_size'' 1) 1"
    using split normal_scores_in_range(7)[OF assms(1,2) _ that] by cases (auto simp: metrics_except_def)
qed

section \<open>Claims about the scoring engine\<close>

text \<open>
  Claim C1: for a proposal with non-negative numeric fields every sub-score and the
  overall score lie between 0 and 100, also when \<open>technical_team\<close> exceeds
  \<open>team_size\<close>. The code does not clamp \<open>technical_ratio\<close>: called with \<open>team_size = 1\<close>
  and \<open>technical_team = 30\<close>, the team score is \<open>3005 / 3\<close> and the overall score
  \<open>541 / 3\<close>, both above 100. (Lemma \<open>sub_scores_in_range\<close> shows that the other five
  sub-scores are in range, and the team score too when \<open>technical_team\<close> is at most
  \<open>max(team_size, 1)\<close>.)
\<close>

theorem team_score_exceeds_100:
  "team_score (calculate_comprehensive_metrics fl
      (map_of [(''cac'', Num 100), (''ltv'', Num 300), (''burn_rate'', Num 1000), (''runway_months'', Num 12),
        (''gross_margin'', Num 50), (''team_size'', Num 1), (''technical_team'', Num 30)])) = 3005 / 3
   \<and> overall_score (calculate_comprehensive_metrics fl
      (map_of [(''cac'', Num 100), (''ltv'', Num 300), (''burn_rate'', Num 1000), (''runway_months'', Num 12),
        (''gross_margin'', Num 50), (''team_size'', Num 1), (''technical_team'', Num 30)])) = 541 / 3"
  by (simp add: calculate_comprehensive_metrics_def metrics_try_def unit_economics_def calc_burn_multiple_def
     calc_efficiency_def calc_growth_def calc_market_def calc_team_def calc_traction_def calc_risk_def calc_overall_def
     weight_def weights_def get_num_def item_num_def truediv_def)







text \<open>
  Claim C7: the overall score is the linear combination of the six sub-scores with the
  weights 0.20, 0.20, 0.15, 0.15, 0.20 and 0.10, on every path of the function, and the
  weights sum to 1.
\<close>

theorem overall_score_weighted_sum:
  "calc_overall e g k t tr r = Some (e * 0.20 + g * 0.20 + k * 0.15 + t * 0.15 + tr * 0.20 + r * 0.10)
   \<and> overall_score (calculate_comprehensive_metrics fl data) =
        efficiency_score (calculate_comprehensive_metrics fl data) * 0.20
        + growth_score (calculate_comprehensive_metrics fl data) * 0.20
        + market_score (calculate_comprehensive_metrics fl data) * 0.15
        + team_score (calculate_comprehensive_metrics fl data) * 0.15
        + traction_score (calculate_comprehensive_metrics fl data) * 0.20
        + risk_score (calculate_comprehensive_metrics fl data) * 0.10
   \<and> map fst weights = [''efficiency'', ''growth'', ''market'', ''team'', ''traction'', ''risk'']
   \<and> sum_list (map snd weights) = 1"
proof (cases "metrics_try fl data")
  case None
  then show ?thesis
    by (simp add: calculate_comprehensive_metrics_def metrics_except_def weights_def overall_eq)
next
  case (Some m)
  from metrics_try_fields(9)[OF Some] show ?thesis
    using Some by (simp add: calculate_comprehensive_metrics_def overall_eq weights_def)
qed

section \<open>Claims about the submission handler\<close>

text \<open>
  Claim C10: a required numeric field (\<open>cac\<close>, \<open>ltv\<close>, \<open>burn_rate\<close>, \<open>runway_months\<close>,
  \<open>funding_seeking\<close>) that equals 0 is falsy, so it is listed among the missing fields
  and the submission is not scored.
\<close>

theorem zero_required_number_is_missing:
  assumes "field \<in> set [''cac'', ''ltv'', ''burn_rate'', ''runway_months'', ''funding_seeking'']"
      and "form field = Some (Num 0)"
  shows "field \<in> set (missing_fields form) \<and> submit fl form = Missing_Fields (missing_fields form)"
proof -
  have "field \<in> set required_fields"
    using assms(1) by (auto simp: required_fields_def)
  then have "field \<in> set (missing_fields form)"
    using assms(2) by (simp add: missing_fields_def truthy_def)
  then show ?thesis
    by (auto simp: submit_def)
qed

theorem zero_required_number_is_missing_witness:
  "''cac'' \<in> set [''cac'', ''ltv'', ''burn_rate'', ''runway_months'', ''funding_seeking'']
   \<and> (map_of [(''company_name'', Str ''Acme''), (''problem_solution'', Str ''p''),
        (''market_info'', Str ''m''), (''business_model_desc'', Str ''b''), (''uniqueness'', Str ''u''),
        (''team_experience'', Str ''e''), (''team_structure'', Str ''s''), (''funding_seeking'', Num 500000),
        (''use_of_funds'', Str ''f''), (''cac'', Num 0), (''ltv'', Num 300), (''burn_rate'', Num 1000),
        (''runway_months'', Num 12), (''competitors'', Str ''c''), (''competitive_advantage'', Str ''a''),
        (''customer_acquisition'', Str ''q''), (''other_risks'', Str ''r'')]) ''cac'' = Some (Num 0)
   \<and> missing_fields (map_of [(''company_name'', Str ''Acme''), (''problem_solution'', Str ''p''),
        (''market_info'', Str ''m''), (''business_model_desc'', Str ''b''), (''uniqueness'', Str ''u''),
        (''team_experience'', Str ''e''), (''team_structure'', Str ''s''), (''funding_seeking'', Num 500000),
        (''use_of_funds'', Str ''f''), (''cac'', Num 0), (''ltv'', Num 300), (''burn_rate'', Num 1000),
        (''runway_months'', Num 12), (''competitors'', Str ''c''), (''competitive_advantage'', Str ''a''),
        (''customer_acquisition'', Str ''q''), (''other_risks'', Str ''r'')]) = [''cac'']
   \<and> submit Finite (map_of [(''company_name'', Str ''Acme''), (''problem_solution'', Str ''p''),
        (''market_info'', Str ''m''), (''business_model_desc'', Str ''b''), (''uniqueness'', Str ''u''),
        (''team_experience'', Str ''e''), (''team_structure'', Str ''s''), (''funding_seeking'', Num 500000),
        (''use_of_funds'', Str ''f''), (''cac'', Num 0), (''ltv'', Num 300), (''burn_rate'', Num 1000),
        (''runway_months'', Num 12), (''competitors'', Str ''c''), (''competitive_advantage'', Str ''a''),
        (''customer_acquisition'', Str ''q''), (''other_risks'', Str ''r'')]) = Missing_Fields [''cac'']"
  using zero_required_number_is_missing [where field = "''cac''" and fl = Finite and form = "(map_of [(''company_name'', Str ''Acme''), (''problem_solution'', Str ''p''),
        (''market_info'', Str ''m''), (''business_model_desc'', Str ''b''), (''uniqueness'', Str ''u''),
        (''team_experience'', Str ''e''), (''team_structure'', Str ''s''), (''funding_seeking'', Num 500000),
        (''use_of_funds'', Str ''f''), (''cac'', Num 0), (''ltv'', Num 300), (''burn_rate'', Num 1000),
        (''runway_months'', Num 12), (''competitors'', Str ''c''), (''competitive_advantage'', Str ''a''),
        (''customer_acquisition'', Str ''q''), (''other_risks'', Str ''r'')])"]
  by (simp add: missing_fields_def required_fields_def truthy_def)

section \<open>Claims about the recommendations\<close>

text \<open>
  Claim C3: the five benchmark checks run in the fixed order LTV/CAC below 3 (Unit
  Economics), runway below 18 (Financial Health), gross margin below 70 (Business Model),
  monthly growth rate below 10 (Growth), churn rate above 5 (Customer Retention). Each
  appends one recommendation when its condition holds, so the areas of the result are the
  areas of the triggered checks in that order, there are at most five, and the list is
  empty exactly when no condition holds.
\<close>

theorem recommendations_fixed_order:
  assumes "form ''runway_months'' = Some (Num runway)"
      and "form ''gross_margin'' = Some (Num margin)"
      and "form ''monthly_growth_rate'' = Some (Num growth)"
      and "form ''churn_rate'' = Some (Num churn)"
  shows "case recommendations fmt1 fmt m form of
           None \<Rightarrow> False
         | Some recs \<Rightarrow>
             map area recs = map snd (filter fst
               [(ltv_cac_ratio m < 3, ''Unit Economics''),
                (runway < 18, ''Financial Health''),
                (margin < 70, ''Business Model''),
                (growth < 10, ''Growth''),
                (churn > 5, ''Customer Retention'')])
             \<and> length recs \<le> 5
             \<and> (recs = [] \<longleftrightarrow>
                  \<not> ltv_cac_ratio m < 3 \<and> \<not> runway < 18 \<and> \<not> margin < 70
                  \<and> \<not> growth < 10 \<and> \<not> churn > 5)"
  using assms by (simp add: recommendations_def item_num_def)

theorem recommendations_fixed_order_witness:
  "case recommendations (\<lambda>x. ''?'') (\<lambda>x. ''?'') (metrics_except\<lparr>ltv_cac_ratio := 4\<rparr>)
       [''runway_months'' \<mapsto> Num 12, ''gross_margin'' \<mapsto> Num 80, ''monthly_growth_rate'' \<mapsto> Num 5,
        ''churn_rate'' \<mapsto> Num 2] of
     None \<Rightarrow> False
   | Some recs \<Rightarrow> map area recs = [''Financial Health'', ''Growth''] \<and> length recs \<le> 5"
  using recommendations_fixed_order [where
       form = "[''runway_months'' \<mapsto> Num 12, ''gross_margin'' \<mapsto> Num 80,
               ''monthly_growth_rate'' \<mapsto> Num 5, ''churn_rate'' \<mapsto> Num 2]"
       and runway = 12 and margin = 80 and growth = 5 and churn = 2
       and ?fmt1.0 = "\<lambda>x. ''?''" and fmt = "\<lambda>x. ''?''"
       and m = "metrics_except\<lparr>ltv_cac_ratio := 4\<rparr>"]
  by (simp add: metrics_except_def split: option.splits)

section \<open>Splitting, stripping and slicing\<close>

lemma contains_sublist: "contains sub s = sublist sub s"
  by (induction s) (auto simp: sublist_Cons_right)



lemma prefix_cut:
  assumes "prefix p (A @ T)" "prefix T' T" "length p \<le> length A + length T'"
  shows "prefix p (A @ T')"
  using assms prefix_length_prefix by fastforce

lemma sublist_mono: "sublist a X \<Longrightarrow> sublist a (P @ X @ Q)"
  unfolding sublist_def by (metis append.assoc)

lemma py_split_none: "\<not> sublist sep Y \<Longrightarrow> py_split sep Y = [Y]"
  by (induction Y) (auto simp: sublist_Cons_right)

lemma py_split_first:
  assumes "sep \<noteq> []" "\<not> sublist sep (Y @ butlast sep)"
  shows "py_split sep (Y @ sep @ rest) = Y # py_split sep rest"
  using assms(2)
proof (induction Y)
  case Nil
  from assms(1) obtain a as where sep: "sep = a # as" by (cases sep) auto
  show ?case by (simp add: sep)
next
  case (Cons c Y)
  from Cons.prems have np: "\<not> prefix sep (c # Y @ butlast sep)"
    and ns: "\<not> sublist sep (Y @ butlast sep)"
    by (auto simp: sublist_Cons_right)
  have "\<not> prefix sep ((c # Y) @ sep @ rest)"
  proof
    assume "prefix sep ((c # Y) @ sep @ rest)"
    moreover have "prefix (butlast sep) (sep @ rest)"
      by (meson prefix_append prefixeq_butlast prefix_order.trans prefixI)
    moreover have "length sep \<le> length (c # Y) + length (butlast sep)"
      using assms(1) by simp
    ultimately have "prefix sep ((c # Y) @ butlast sep)"
      by (rule prefix_cut)
    with np show False by simp
  qed
  then show ?case
    using Cons.IH[OF ns] by simp
qed

lemma fence_json_before:
  "sublist fence_json (Y @ butlast fence_json) \<Longrightarrow> sublist fence (Y @ butlast fence)"
proof (induction Y)
  case Nil
  then show ?case by (simp add: fence_json_def fence_def sublist_Cons_right)
next
  case (Cons c Y)
  from Cons.prems consider "prefix fence_json (c # Y @ butlast fence_json)"
    | "sublist fence_json (Y @ butlast fence_json)"
    by (auto simp: sublist_Cons_right)
  then show ?case
  proof cases
    case 1
    have "prefix fence fence_json" by (simp add: fence_json_def)
    with 1 have "prefix fence ((c # Y) @ butlast fence_json)"
      by (metis append_Cons prefix_order.trans)
    moreover have "prefix (butlast fence) (butlast fence_json)"
      by (simp add: fence_json_def fence_def)
    moreover have "length fence \<le> length (c # Y) + length (butlast fence)"
      by (simp add: fence_def)
    ultimately have "prefix fence ((c # Y) @ butlast fence)"
      by (rule prefix_cut)
    then show ?thesis by (simp add: sublist_Cons_right)
  next
    case 2
    from Cons.IH[OF 2] show ?thesis by (simp add: sublist_Cons_right)
  qed
qed

lemma not_space_backtick: "\<not> is_space (CHR 0x60)"
  by (simp add: is_space_def)

lemma not_space_braces: "\<not> is_space CHR ''{''" "\<not> is_space CHR ''}''"
  by (simp_all add: is_space_def)

lemma py_strip_fenced:
  "py_strip (pre @ fence @ M @ fence @ post)
     = dropWhile is_space pre @ fence @ M @ fence @ rev (dropWhile is_space (rev post))"
  by (simp add: py_strip_def fence_def dropWhile_append3 not_space_backtick)

lemma py_strip_object:
  assumes "prefix ''{'' s" "suffix ''}'' s" "list_all is_space ws2"
  shows "py_strip (T @ s @ ws2) = dropWhile is_space T @ s"
proof -
  from assms(1) obtain s1 where s1: "s = CHR ''{'' # s1" by (auto simp: prefix_def)
  from assms(2) obtain s2 where s2: "s = s2 @ [CHR ''}'']" by (auto simp: suffix_def)
  have a: "dropWhile is_space (T @ s @ ws2) = dropWhile is_space T @ s @ ws2"
    by (simp add: s1 dropWhile_append3 not_space_braces)
  have "rev (dropWhile is_space T @ s @ ws2) = rev ws2 @ CHR ''}'' # rev s2 @ rev (dropWhile is_space T)"
    by (simp add: s2)
  moreover have "\<forall>x\<in>set ws2. is_space x"
    using assms(3) by (simp add: list_all_iff)
  ultimately have b: "dropWhile is_space (rev (dropWhile is_space T @ s @ ws2))
      = CHR ''}'' # rev s2 @ rev (dropWhile is_space T)"
    by (simp add: dropWhile_append not_space_braces)
  have "py_strip (T @ s @ ws2) = rev (dropWhile is_space (rev (dropWhile is_space T @ s @ ws2)))"
    by (simp only: py_strip_def a)
  also have "\<dots> = rev (CHR ''}'' # rev s2 @ rev (dropWhile is_space T))"
    by (simp only: b)
  also have "\<dots> = dropWhile is_space T @ s"
    by (simp add: s2)
  finally show ?thesis .
qed

lemma drop_before_brace_object:
  assumes "prefix ''{'' s" "CHR ''{'' \<notin> set U"
  shows "drop_before_brace (U @ s) = s"
proof -
  from assms(1) obtain s1 where s1: "s = CHR ''{'' # s1" by (auto simp: prefix_def)
  show ?thesis
  proof (cases U)
    case Nil
    then show ?thesis by (simp add: drop_before_brace_def s1)
  next
    case (Cons u U')
    with assms(2) have "u \<noteq> CHR ''{''" by auto
    then have np: "\<not> prefix ''{'' (U @ s)" by (simp add: Cons)
    have tw: "takeWhile (\<lambda>x. x \<noteq> CHR ''{'') (U @ s) = U"
      using assms(2) by (auto simp: s1 takeWhile_append)
    have "py_find CHR ''{'' (U @ s) = int (length U)"
      by (simp add: py_find_def tw) (simp add: s1)
    then show ?thesis
      using np by (simp add: drop_before_brace_def slice_from_def)
  qed
qed

lemma drop_after_brace_id: "drop_after_brace t = t"
proof (cases "suffix ''}'' t")
  case False
  then show ?thesis by (simp add: drop_after_brace_def)
next
  case True
  then obtain t2 where t2: "t = t2 @ [CHR ''}'']" by (auto simp: suffix_def)
  have "py_rfind CHR ''}'' t = int (length t) - 1"
    by (simp add: py_rfind_def t2)
  then show ?thesis
    using True by (simp add: drop_after_brace_def slice_to_def)
qed



lemma fence_lit: "fence = ''```''" "butlast fence = ''``''"
  by (simp_all add: fence_def)

lemma strip_code_block_plain:
  assumes nj: "\<not> sublist fence_json (pre @ fence @ inner @ fence @ post)"
      and op: "\<not> sublist fence (pre @ butlast fence)"
      and cl: "\<not> sublist fence (inner @ butlast fence)"
  shows "strip_code_block (pre @ fence @ inner @ fence @ post) = Some (py_strip inner)"
proof -
  have f: "fence \<noteq> []" by (simp add: fence_def)
  have "py_split fence (pre @ fence @ inner @ fence @ post)
          = pre # inner # py_split fence post"
    by (simp add: py_split_first[OF f op] py_split_first[OF f cl])
  then have a: "py_index (py_split fence (pre @ fence @ inner @ fence @ post)) (Suc 0) = Some inner"
    by (simp add: py_index_def)
  have "\<not> sublist fence inner"
    using cl sublist_mono[of fence inner "[]" "butlast fence"] by auto
  then have b: "py_index (py_split fence inner) 0 = Some inner"
    by (simp add: py_split_none py_index_def)
  show ?thesis
    using nj by (simp add: strip_code_block_def contains_sublist a b)
qed

lemma strip_code_block_json:
  assumes nj: "\<not> sublist fence_json (inner' @ fence @ post)"
      and op: "\<not> sublist fence (pre @ butlast fence)"
      and cl: "\<not> sublist fence (''json'' @ inner' @ butlast fence)"
  shows "strip_code_block (pre @ fence @ ''json'' @ inner' @ fence @ post) = Some (py_strip inner')"
proof -
  have f: "fence \<noteq> []" and fj: "fence_json \<noteq> []"
    by (simp_all add: fence_def fence_json_def)
  have tx: "pre @ fence @ ''json'' @ inner' @ fence @ post
               = pre @ fence_json @ (inner' @ fence @ post)"
    by (simp add: fence_json_def)
  have op': "\<not> sublist fence_json (pre @ butlast fence_json)"
    using op fence_json_before by blast
  have "py_split fence_json (pre @ fence_json @ (inner' @ fence @ post))
          = [pre, inner' @ fence @ post]"
    by (simp add: py_split_first[OF fj op'] py_split_none[OF nj])
  then have a: "py_index (py_split fence_json (pre @ fence_json @ (inner' @ fence @ post))) (Suc 0)
                  = Some (inner' @ fence @ post)"
    by (simp add: py_index_def)
  have cl': "\<not> sublist fence (inner' @ butlast fence)"
    using cl sublist_mono[of fence "inner' @ butlast fence" "''json''" "[]"] by auto
  have b: "py_index (py_split fence (inner' @ fence @ post)) 0 = Some inner'"
    by (simp add: py_split_first[OF f cl'] py_index_def)
  have "contains fence_json (pre @ fence_json @ (inner' @ fence @ post))"
    by (simp add: contains_sublist)
  then show ?thesis
    unfolding tx by (simp add: strip_code_block_def a b)
qed

lemma clean_fenced_object:
  assumes obj: "prefix ''{'' s" "suffix ''}'' s"
      and ws: "list_all is_space ws1" "list_all is_space ws2"
      and tag: "CHR ''{'' \<notin> set tag"
      and op: "\<not> sublist fence (pre @ ''``'')"
      and cl: "\<not> sublist fence (tag @ ws1 @ s @ ws2 @ ''``'')"
      and marker:
        "\<not> sublist fence_json (pre @ fence @ tag @ ws1 @ s @ ws2 @ fence @ post)
         \<or> (prefix ''json'' tag
             \<and> \<not> sublist fence_json (drop 4 tag @ ws1 @ s @ ws2 @ fence @ post))"
  shows "clean_response (pre @ fence @ tag @ ws1 @ s @ ws2 @ fence @ post) = Some s"
proof -
  define pre' where "pre' = dropWhile is_space pre"
  define post' where "post' = rev (dropWhile is_space (rev post))"
  obtain wsp where pre: "pre = wsp @ pre'"
    unfolding pre'_def by (metis takeWhile_dropWhile_id)
  obtain wse where post: "post = post' @ wse"
    unfolding post'_def by (metis rev_append rev_rev_ident takeWhile_dropWhile_id)
  have strip: "py_strip (pre @ fence @ tag @ ws1 @ s @ ws2 @ fence @ post)
                 = pre' @ fence @ (tag @ ws1 @ s @ ws2) @ fence @ post'"
    using py_strip_fenced[of pre "tag @ ws1 @ s @ ws2" post] by (simp add: pre'_def post'_def)
  have cr: "clean_response (pre @ fence @ tag @ ws1 @ s @ ws2 @ fence @ post)
     = strip_code_block (pre' @ fence @ (tag @ ws1 @ s @ ws2) @ fence @ post')
         \<bind> (\<lambda>t. Some (drop_after_brace (drop_before_brace t)))"
    by (simp only: clean_response_def strip)
  have op': "\<not> sublist fence (pre' @ butlast fence)"
    using op sublist_mono[of fence "pre' @ butlast fence" wsp "[]"] by (auto simp: pre fence_lit)
  have cl': "\<not> sublist fence ((tag @ ws1 @ s @ ws2) @ butlast fence)"
    using cl by (simp add: fence_lit)
  have ws1_no: "CHR ''{'' \<notin> set ws1"
    using ws(1) not_space_braces(1) by (auto simp: list_all_iff)
  have recover: "drop_after_brace (drop_before_brace (py_strip (T @ ws1 @ s @ ws2))) = s"
    if "CHR ''{'' \<notin> set T" for T
  proof -
    have "py_strip ((T @ ws1) @ s @ ws2) = dropWhile is_space (T @ ws1) @ s"
      by (rule py_strip_object[OF obj ws(2)])
    moreover have "CHR ''{'' \<notin> set (dropWhile is_space (T @ ws1))"
      using that ws1_no set_dropWhileD by fastforce
    ultimately show ?thesis
      by (simp add: drop_after_brace_id drop_before_brace_object[OF obj(1)])
  qed
  from marker show ?thesis
  proof
    assume "\<not> sublist fence_json (pre @ fence @ tag @ ws1 @ s @ ws2 @ fence @ post)"
    then have "\<not> sublist fence_json (pre' @ fence @ (tag @ ws1 @ s @ ws2) @ fence @ post')"
      using sublist_mono[of fence_json "pre' @ fence @ (tag @ ws1 @ s @ ws2) @ fence @ post'" wsp wse]
      by (auto simp: pre post)
    from strip_code_block_plain[OF this op' cl'] show ?thesis
      unfolding cr by (simp add: recover[OF tag])
  next
    assume a: "prefix ''json'' tag
             \<and> \<not> sublist fence_json (drop 4 tag @ ws1 @ s @ ws2 @ fence @ post)"
    then obtain tag' where tag': "tag = ''json'' @ tag'" by (auto simp: prefix_def)
    have "\<not> sublist fence_json ((tag' @ ws1 @ s @ ws2) @ fence @ post')"
      using a sublist_mono[of fence_json "(tag' @ ws1 @ s @ ws2) @ fence @ post'" "[]" wse]
      by (auto simp: tag' post)
    moreover have "\<not> sublist fence (''json'' @ (tag' @ ws1 @ s @ ws2) @ butlast fence)"
      using cl' by (simp add: tag')
    ultimately have "strip_code_block (pre' @ fence @ ''json'' @ (tag' @ ws1 @ s @ ws2) @ fence @ post')
         = Some (py_strip (tag' @ ws1 @ s @ ws2))"
      using strip_code_block_json[OF _ op'] by blast
    then have "strip_code_block (pre' @ fence @ (tag @ ws1 @ s @ ws2) @ fence @ post')
         = Some (py_strip (tag' @ ws1 @ s @ ws2))"
      by (simp add: tag')
    moreover have "CHR ''{'' \<notin> set tag'"
      using tag by (simp add: tag')
    ultimately show ?thesis
      unfolding cr by (simp add: recover)
  qed
qed

lemma clean_backtick_example: \<open>clean_response ''Hi ```json {"a": "```"} ``` ok'' = Some ''{"a": "''\<close>
  by code_simp




section \<open>Claims about generate_ai_insights\<close>

text \<open>
  Claim C8: an API key that is empty or does not start with \<open>sk-\<close> gives an error record;
  the collaborator is not invoked (the call list is empty and the result does not depend
  on the collaborator).
\<close>

theorem bad_key_never_calls_collaborator:
  assumes "api_key = [] \<or> \<not> prefix ''sk-'' api_key"
  shows "snd (generate_ai_insights loads chat data api_key) = []
     \<and> (\<exists>msg. fst (generate_ai_insights loads chat data api_key) = error_record msg)
     \<and> generate_ai_insights loads chat data api_key = generate_ai_insights loads chat' data api_key"
  using assms by (auto simp: generate_ai_insights_def)

theorem bad_key_never_calls_collaborator_witness:
  "(''pk-123'' = [] \<or> \<not> prefix ''sk-'' ''pk-123'')
   \<and> snd (generate_ai_insights (\<lambda>t. JSONDecodeError) (\<lambda>k d. Inr ''{}'') Map.empty ''pk-123'') = []
   \<and> json_get (fst (generate_ai_insights (\<lambda>t. JSONDecodeError) (\<lambda>k d. Inr ''{}'') Map.empty ''pk-123'')) ''error''
       = Some (JStr (''Invalid API key format. OpenAI API keys should start with '' @ [CHR 0x27] @ ''sk-'' @ [CHR 0x27]))"
  using bad_key_never_calls_collaborator [of "''pk-123''" "\<lambda>t. JSONDecodeError" "\<lambda>k d. Inr ''{}''" Map.empty "\<lambda>k d. Inr ''{}''"]
  by (auto simp: generate_ai_insights_def error_record_def json_get_def)




text \<open>
  Claim C9: the fallback record carries the key \<open>error\<close> with the value
  \<open>JSON parsing failed\<close>; the submission handler therefore resets the insights to the
  empty dictionary, and the guard of the PDF generator is false on the record.
\<close>

theorem fallback_classified_as_error:
  assumes "api_key \<noteq> []" "prefix ''sk-'' api_key"
      and "chat api_key data = Inr content"
      and "clean_response content = Some t" "loads t = JSONDecodeError"
  shows "json_get (fst (generate_ai_insights loads chat data api_key)) ''error''
           = Some (JStr ''JSON parsing failed'')
     \<and> error_in (fst (generate_ai_insights loads chat data api_key)) = Some True
     \<and> handle_insights display_raises (fst (generate_ai_insights loads chat data api_key)) = JObj []
     \<and> pdf_shows_insights (fst (generate_ai_insights loads chat data api_key)) = Some False"
proof -
  have "fst (generate_ai_insights loads chat data api_key) = fallback_insights"
    using assms by (simp add: generate_ai_insights_def)
  then show ?thesis
    by (simp add: fallback_insights_def json_get_def error_in_def handle_insights_def
        pdf_shows_insights_def json_truthy_def)
qed

theorem fallback_classified_as_error_witness:
  \<open>clean_response ''{"investment_thesis": "Str'' = Some ''{"investment_thesis": "Str''
   \<and> handle_insights (\<lambda>v. False) (fst (generate_ai_insights (\<lambda>t. JSONDecodeError)
        (\<lambda>k d. Inr ''{"investment_thesis": "Str'') Map.empty ''sk-test'')) = JObj []
   \<and> pdf_shows_insights (fst (generate_ai_insights (\<lambda>t. JSONDecodeError)
        (\<lambda>k d. Inr ''{"investment_thesis": "Str'') Map.empty ''sk-test'')) = Some False\<close>
proof -
  have c: \<open>clean_response ''{"investment_thesis": "Str'' = Some ''{"investment_thesis": "Str''\<close>
    by code_simp
  show ?thesis
    using fallback_classified_as_error [where api_key = "''sk-test''" and data = Map.empty
        and display_raises = "\<lambda>v. False"
        and chat = \<open>\<lambda>k d. Inr ''{"investment_thesis": "Str''\<close> and loads = "\<lambda>t. JSONDecodeError"
        and content = \<open>''{"investment_thesis": "Str''\<close> and t = \<open>''{"investment_thesis": "Str''\<close>] c
    by simp
qed

text \<open>
  Claim C4, as stated, fails: the fenced block is cut at the first triple backtick after
  the opening fence, also when that triple backtick lies inside a string of the JSON
  object. For the object \<open>{"a": "```"}\<close> the recovered text is the unterminated
  \<open>{"a": "\<close>. The parser of this example accepts the serialized object and rejects
  every other text, as \<open>json.loads\<close> rejects the unterminated one; the result is the
  fallback record, not the object.
\<close>

theorem fenced_object_with_backticks_lost:
  \<open>clean_response ''Hi ```json {"a": "```"} ``` ok'' = Some ''{"a": "''
   \<and> fst (generate_ai_insights
        (\<lambda>t. if t = ''{"a": "```"}'' then Parsed (JObj [(''a'', JStr ''```'')]) else JSONDecodeError)
        (\<lambda>k d. Inr ''Hi ```json {"a": "```"} ``` ok'') Map.empty ''sk-test'')
      = fallback_insights
   \<and> fallback_insights \<noteq> JObj [(''a'', JStr ''```'')]\<close>
  by (simp add: clean_backtick_example generate_ai_insights_def fallback_insights_def)

text \<open>
  Claim C4, amended: let the response be leading prose, an opening fence, an optional
  language tag without \<open>{\<close>, whitespace, the serialized object, whitespace, a closing
  fence and trailing prose. If the opening fence is the first triple backtick of the
  response, the closing fence is the first triple backtick after it (so the object
  contains none), and the marker of a \<open>json\<close> fence occurs nowhere but possibly as the
  opening fence, then the recovery steps yield exactly the serialized object and the
  function returns the object \<open>json.loads\<close> parses from it.
\<close>

theorem fenced_object_recovered:
  assumes key: "api_key \<noteq> []" "prefix ''sk-'' api_key"
      and reply: "chat api_key data = Inr (pre @ fence @ tag @ ws1 @ s @ ws2 @ fence @ post)"
      and parse: "loads s = Parsed obj"
      and obj: "prefix ''{'' s" "suffix ''}'' s"
      and ws: "list_all is_space ws1" "list_all is_space ws2"
      and tag: "CHR ''{'' \<notin> set tag"
      and op: "\<not> sublist fence (pre @ ''``'')"
      and cl: "\<not> sublist fence (tag @ ws1 @ s @ ws2 @ ''``'')"
      and marker:
        "\<not> sublist fence_json (pre @ fence @ tag @ ws1 @ s @ ws2 @ fence @ post)
         \<or> (prefix ''json'' tag
             \<and> \<not> sublist fence_json (drop 4 tag @ ws1 @ s @ ws2 @ fence @ post))"
  shows "clean_response (pre @ fence @ tag @ ws1 @ s @ ws2 @ fence @ post) = Some s
     \<and> fst (generate_ai_insights loads chat data api_key) = obj"
proof -
  have "clean_response (pre @ fence @ tag @ ws1 @ s @ ws2 @ fence @ post) = Some s"
    by (rule clean_fenced_object[OF obj ws tag op cl marker])
  then show ?thesis
    using key reply parse by (simp add: generate_ai_insights_def)
qed

theorem fenced_object_recovered_witness:
  \<open>fst (generate_ai_insights
        (\<lambda>t. if t = ''{"a": 1}'' then Parsed (JObj [(''a'', JNum 1)]) else JSONDecodeError)
        (\<lambda>k d. Inr (''Here you go: '' @ fence @ ''json'' @ [CHR 0x0A] @ ''{"a": 1}'' @ [CHR 0x0A]
                     @ fence @ '' Hope this helps.''))
        Map.empty ''sk-test'')
     = JObj [(''a'', JNum 1)]
   \<and> fst (generate_ai_insights
        (\<lambda>t. if t = ''{"a": 1}'' then Parsed (JObj [(''a'', JNum 1)]) else JSONDecodeError)
        (\<lambda>k d. Inr (''Here you go: '' @ fence @ [] @ [CHR 0x0A] @ ''{"a": 1}'' @ [CHR 0x0A]
                     @ fence @ '' Hope this helps.''))
        Map.empty ''sk-test'')
     = JObj [(''a'', JNum 1)]\<close>
proof -
  have sp: "list_all is_space [CHR 0x0A]"
    by (simp add: is_space_def)
  have sf: \<open>suffix ''}'' ''{"a": 1}''\<close>
    by (simp add: suffix_def)
  have a: \<open>\<not> sublist fence (''Here you go: '' @ ''``'')\<close>
    by code_simp
  have b: \<open>\<not> sublist fence (''json'' @ [CHR 0x0A] @ ''{"a": 1}'' @ [CHR 0x0A] @ ''``'')\<close>
    by code_simp
  have b': \<open>\<not> sublist fence ([] @ [CHR 0x0A] @ ''{"a": 1}'' @ [CHR 0x0A] @ ''``'')\<close>
    by code_simp
  have c: \<open>prefix ''json'' ''json''
      \<and> \<not> sublist fence_json (drop 4 ''json'' @ [CHR 0x0A] @ ''{"a": 1}'' @ [CHR 0x0A] @ fence
            @ '' Hope this helps.'')\<close>
    by code_simp
  have c': \<open>\<not> sublist fence_json (''Here you go: '' @ fence @ [] @ [CHR 0x0A] @ ''{"a": 1}''
            @ [CHR 0x0A] @ fence @ '' Hope this helps.'')\<close>
    by code_simp
  have 1: \<open>fst (generate_ai_insights
        (\<lambda>t. if t = ''{"a": 1}'' then Parsed (JObj [(''a'', JNum 1)]) else JSONDecodeError)
        (\<lambda>k d. Inr (''Here you go: '' @ fence @ ''json'' @ [CHR 0x0A] @ ''{"a": 1}'' @ [CHR 0x0A]
                     @ fence @ '' Hope this helps.''))
        Map.empty ''sk-test'')
     = JObj [(''a'', JNum 1)]\<close>
    using fenced_object_recovered [where api_key = "''sk-test''" and data = Map.empty
        and pre = "''Here you go: ''" and tag = "''json''" and ?ws1.0 = "[CHR 0x0A]"
        and ?ws2.0 = "[CHR 0x0A]" and post = "'' Hope this helps.''"
        and obj = "JObj [(''a'', JNum 1)]" and s = \<open>''{"a": 1}''\<close>
        and loads = \<open>\<lambda>t. if t = ''{"a": 1}'' then Parsed (JObj [(''a'', JNum 1)]) else JSONDecodeError\<close>
        and chat = \<open>\<lambda>k d. Inr (''Here you go: '' @ fence @ ''json'' @ [CHR 0x0A] @ ''{"a": 1}''
                     @ [CHR 0x0A] @ fence @ '' Hope this helps.'')\<close>,
        OF _ _ _ _ _ sf sp sp _ a b]
      c by simp
  have 2: \<open>fst (generate_ai_insights
        (\<lambda>t. if t = ''{"a": 1}'' then Parsed (JObj [(''a'', JNum 1)]) else JSONDecodeError)
        (\<lambda>k d. Inr (''Here you go: '' @ fence @ [] @ [CHR 0x0A] @ ''{"a": 1}'' @ [CHR 0x0A]
                     @ fence @ '' Hope this helps.''))
        Map.empty ''sk-test'')
     = JObj [(''a'', JNum 1)]\<close>
    using fenced_object_recovered [where api_key = "''sk-test''" and data = Map.empty
        and pre = "''Here you go: ''" and tag = "[]" and ?ws1.0 = "[CHR 0x0A]"
        and ?ws2.0 = "[CHR 0x0A]" and post = "'' Hope this helps.''"
        and obj = "JObj [(''a'', JNum 1)]" and s = \<open>''{"a": 1}''\<close>
        and loads = \<open>\<lambda>t. if t = ''{"a": 1}'' then Parsed (JObj [(''a'', JNum 1)]) else JSONDecodeError\<close>
        and chat = \<open>\<lambda>k d. Inr (''Here you go: '' @ fence @ [] @ [CHR 0x0A] @ ''{"a": 1}''
                     @ [CHR 0x0A] @ fence @ '' Hope this helps.'')\<close>,
        OF _ _ _ _ _ sf sp sp _ a b']
      c' by simp
  from 1 2 show ?thesis by simp
qed

end
